theory Spec2Isabelle
  imports Main "HOL-Library.Word"
begin

section \<open>Tectra: the clock abstraction of \<open>src/common/time.hpp\<close>\<close>

text \<open>
  The header declares \<open>using Timestamp = std::int64_t\<close>, an abstract base \<open>Clock\<close> with
  the two virtual members \<open>now\<close> and \<open>is_virtual\<close>, and the two final leaves
  \<open>RealClock\<close> and \<open>VirtualClock\<close>.

  A \<open>std::int64_t\<close> is a \<open>64 word\<close> read in two's complement by \<open>sint\<close>, so every value
  of the type is an int64 and no range side condition is needed on inputs.
\<close>

subsection \<open>Signed 64-bit integers\<close>

type_synonym int64 = "64 word"
type_synonym Timestamp = int64

definition INT64_MAX :: int64 where
  "INT64_MAX = 9223372036854775807"

definition INT64_MIN :: int64 where
  "INT64_MIN = - 9223372036854775808"

text \<open>The integers representable in a \<open>std::int64_t\<close>.\<close>

definition in_int64 :: "int \<Rightarrow> bool" where
  "in_int64 r \<longleftrightarrow> - 9223372036854775808 \<le> r \<and> r \<le> 9223372036854775807"

text \<open>
  C++ evaluates \<open>a + b\<close> on two \<open>std::int64_t\<close> operands in the signed type. When the
  mathematical sum is not representable the behaviour of the program is undefined
  ([expr.pre]: a result "not in the range of representable values for its type"); the
  language promises neither wrap-around nor saturation. The model makes that outcome a
  value of its own, as a verified C semantics does with its signed-arithmetic guard.
\<close>

datatype fault = SignedOverflow

definition int64_add :: "int64 \<Rightarrow> int64 \<Rightarrow> fault + int64" where
  "int64_add a b =
     (let r = sint a + sint b
      in if in_int64 r then Inr (word_of_int r) else Inl SignedOverflow)"

subsection \<open>VirtualClock\<close>

text \<open>
  \<open>class VirtualClock\<close> has the single private data member \<open>Timestamp current_time_\<close>
  (the field \<open>current_time\<close> here: an Isabelle name cannot end in an underscore).
\<close>

record VirtualClock =
  current_time :: Timestamp

text \<open>\<open>explicit VirtualClock(Timestamp start_time = 0) : current_time_(start_time) {}\<close>\<close>

definition VirtualClock_ctor :: "Timestamp \<Rightarrow> VirtualClock" where
  "VirtualClock_ctor start_time = \<lparr>current_time = start_time\<rparr>"

text \<open>The same constructor called with no argument: the default argument \<open>0\<close> is used.\<close>

definition VirtualClock_ctor_default :: VirtualClock where
  "VirtualClock_ctor_default = VirtualClock_ctor 0"

text \<open>\<open>Timestamp now() const override { return current_time_; }\<close>\<close>

definition VirtualClock_now :: "VirtualClock \<Rightarrow> Timestamp" where
  "VirtualClock_now this = current_time this"

text \<open>\<open>bool is_virtual() const override { return true; }\<close>\<close>

definition VirtualClock_is_virtual :: "VirtualClock \<Rightarrow> bool" where
  "VirtualClock_is_virtual this = True"

text \<open>\<open>void advance(std::int64_t delta_ns) { current_time_ += delta_ns; }\<close>\<close>

definition VirtualClock_advance :: "VirtualClock \<Rightarrow> int64 \<Rightarrow> fault + VirtualClock" where
  "VirtualClock_advance this delta_ns =
     (case int64_add (current_time this) delta_ns of
        Inl f \<Rightarrow> Inl f
      | Inr t \<Rightarrow> Inr (this\<lparr>current_time := t\<rparr>))"

text \<open>\<open>void set_time(Timestamp absolute_time) { current_time_ = absolute_time; }\<close>\<close>

definition VirtualClock_set_time :: "VirtualClock \<Rightarrow> Timestamp \<Rightarrow> VirtualClock" where
  "VirtualClock_set_time this absolute_time = this\<lparr>current_time := absolute_time\<rparr>"

subsection \<open>RealClock\<close>

text \<open>
  \<open>class RealClock\<close> has no data member: all its objects are alike.
\<close>

datatype RealClock = RealClock

text \<open>
  \<open>Timestamp now() const override\<close> reads \<open>std::chrono::steady_clock::now()\<close>, takes
  \<open>time_since_epoch()\<close>, converts it with \<open>duration_cast<std::chrono::nanoseconds>\<close> and
  returns \<open>count()\<close>. The steady clock belongs to the platform, not to this repository:
  its reading at the moment of the call, as a count of nanoseconds, is the parameter
  \<open>steady_ns\<close>.
\<close>

definition RealClock_now :: "RealClock \<Rightarrow> Timestamp \<Rightarrow> Timestamp" where
  "RealClock_now this steady_ns = steady_ns"

text \<open>\<open>bool is_virtual() const override { return false; }\<close>\<close>

definition RealClock_is_virtual :: "RealClock \<Rightarrow> bool" where
  "RealClock_is_virtual this = False"

subsection \<open>The base class Clock\<close>

text \<open>
  An object used through \<open>Clock&\<close> is one of the two final leaves; a call of a virtual
  member runs the override of the leaf.
\<close>

datatype Clock = Real RealClock | Virtual VirtualClock

fun Clock_now :: "Clock \<Rightarrow> Timestamp \<Rightarrow> Timestamp" where
  "Clock_now (Real c) steady_ns = RealClock_now c steady_ns"
| "Clock_now (Virtual c) steady_ns = VirtualClock_now c"

fun Clock_is_virtual :: "Clock \<Rightarrow> bool" where
  "Clock_is_virtual (Real c) = RealClock_is_virtual c"
| "Clock_is_virtual (Virtual c) = VirtualClock_is_virtual c"

subsection \<open>Sequences of member calls\<close>

text \<open>
  A caller such as \<open>main\<close> applies member functions to one object, one after the other.
  \<open>call\<close> names the four public members of \<open>VirtualClock\<close>, \<open>retval\<close> what a call
  returns. The \<open>const\<close> members hand the object back as it was; an overflowing
  \<open>advance\<close> ends the defined part of the execution.
\<close>

datatype call = Now | IsVirtual | Advance int64 | SetTime Timestamp

datatype retval = TimestampVal Timestamp | BoolVal bool | Void

fun VirtualClock_call :: "VirtualClock \<Rightarrow> call \<Rightarrow> fault + (retval \<times> VirtualClock)" where
  "VirtualClock_call vc Now = Inr (TimestampVal (VirtualClock_now vc), vc)"
| "VirtualClock_call vc IsVirtual = Inr (BoolVal (VirtualClock_is_virtual vc), vc)"
| "VirtualClock_call vc (Advance delta_ns) =
     (case VirtualClock_advance vc delta_ns of
        Inl f \<Rightarrow> Inl f
      | Inr vc' \<Rightarrow> Inr (Void, vc'))"
| "VirtualClock_call vc (SetTime absolute_time) =
     Inr (Void, VirtualClock_set_time vc absolute_time)"

fun VirtualClock_run :: "VirtualClock \<Rightarrow> call list \<Rightarrow> fault + (retval list \<times> VirtualClock)" where
  "VirtualClock_run vc [] = Inr ([], vc)"
| "VirtualClock_run vc (c # cs) =
     (case VirtualClock_call vc c of
        Inl f \<Rightarrow> Inl f
      | Inr (r, vc') \<Rightarrow>
          (case VirtualClock_run vc' cs of
             Inl f \<Rightarrow> Inl f
           | Inr (rs, vc'') \<Rightarrow> Inr (r # rs, vc'')))"

text \<open>
  \<open>RealClock\<close> has the two inherited members only, both \<open>const\<close>: \<open>advance\<close> and
  \<open>set_time\<close> do not exist on it and a call of them does not compile. A call of \<open>now\<close>
  comes with the platform's reading at that moment.
\<close>

datatype real_call = RealNow Timestamp | RealIsVirtual

fun RealClock_call :: "RealClock \<Rightarrow> real_call \<Rightarrow> retval \<times> RealClock" where
  "RealClock_call rc (RealNow steady_ns) = (TimestampVal (RealClock_now rc steady_ns), rc)"
| "RealClock_call rc RealIsVirtual = (BoolVal (RealClock_is_virtual rc), rc)"

fun RealClock_run :: "RealClock \<Rightarrow> real_call list \<Rightarrow> retval list \<times> RealClock" where
  "RealClock_run rc [] = ([], rc)"
| "RealClock_run rc (c # cs) =
     (case RealClock_call rc c of
        (r, rc') \<Rightarrow> (case RealClock_run rc' cs of (rs, rc'') \<Rightarrow> (r # rs, rc'')))"

section \<open>Signed addition\<close>

lemma sint_word_of_int_in_int64:
  "in_int64 r \<Longrightarrow> sint (word_of_int r :: int64) = r"
  by (simp add: in_int64_def sint_sbintrunc' signed_take_bit_int_eq_self)

lemma in_int64_sint: "in_int64 (sint (a :: int64))"
  using sint_ge [of a] sint_lt [of a] by (simp add: in_int64_def)

lemma int64_add_in_range:
  assumes "in_int64 (sint a + sint b)"
  shows "int64_add a b = Inr (a + b)"
  using assms by (simp add: int64_add_def)

lemma int64_add_overflow:
  assumes "\<not> in_int64 (sint a + sint b)"
  shows "int64_add a b = Inl SignedOverflow"
  using assms by (simp add: int64_add_def)

lemma sint_add_in_range:
  assumes "in_int64 (sint a + sint b)"
  shows "sint (a + b) = sint a + sint (b :: int64)"
proof -
  have "a + b = word_of_int (sint a + sint b)" by simp
  then show ?thesis
    using assms sint_word_of_int_in_int64 by metis
qed

lemma advance_in_range:
  assumes "in_int64 (sint (current_time vc) + sint d)"
  shows "VirtualClock_advance vc d = Inr (vc\<lparr>current_time := current_time vc + d\<rparr>)"
  using assms by (simp add: VirtualClock_advance_def int64_add_in_range)

lemma advance_overflow:
  assumes "\<not> in_int64 (sint (current_time vc) + sint d)"
  shows "VirtualClock_advance vc d = Inl SignedOverflow"
  using assms by (simp add: VirtualClock_advance_def int64_add_overflow)

lemma advance_Inr_iff:
  "(\<exists>vc'. VirtualClock_advance vc d = Inr vc') \<longleftrightarrow> in_int64 (sint (current_time vc) + sint d)"
  by (cases "in_int64 (sint (current_time vc) + sint d)")
     (simp_all add: advance_in_range advance_overflow)

section \<open>Sequences of calls\<close>

lemma run_length:
  "VirtualClock_run vc cs = Inr (rs, vc') \<Longrightarrow> length rs = length cs"
proof (induction cs arbitrary: vc rs)
  case Nil
  then show ?case by simp
next
  case (Cons c cs)
  then show ?case
    by (auto split: sum.splits prod.splits)
qed

lemma run_replicate_Now:
  "VirtualClock_run vc (replicate n Now) =
     Inr (replicate n (TimestampVal (current_time vc)), vc)"
  by (induction n) (simp_all add: VirtualClock_now_def)

lemma real_run_length:
  "RealClock_run rc cs = (rs, rc') \<Longrightarrow> length rs = length cs"
proof (induction cs arbitrary: rc rs)
  case Nil
  then show ?case by simp
next
  case (Cons c cs)
  then show ?case
    by (auto split: prod.splits)
qed

lemma run_advance_twice:
  assumes "in_int64 (sint (current_time vc) + sint d1)"
    and "in_int64 (sint (current_time vc) + sint d1 + sint d2)"
  shows "VirtualClock_run vc [Advance d1, Advance d2] =
           Inr ([Void, Void], vc\<lparr>current_time := current_time vc + d1 + d2\<rparr>)"
proof -
  let ?vc1 = "vc\<lparr>current_time := current_time vc + d1\<rparr>"
  from assms(1) have first: "VirtualClock_advance vc d1 = Inr ?vc1"
    by (rule advance_in_range)
  from assms(1) have "sint (current_time ?vc1) = sint (current_time vc) + sint d1"
    by (simp add: sint_add_in_range)
  with assms(2) have "in_int64 (sint (current_time ?vc1) + sint d2)"
    by simp
  then have "VirtualClock_advance ?vc1 d2 = Inr (?vc1\<lparr>current_time := current_time ?vc1 + d2\<rparr>)"
    by (rule advance_in_range)
  with first show ?thesis by simp
qed

lemma run_advance_once:
  assumes "in_int64 (sint (current_time vc) + sint d)"
  shows "VirtualClock_run vc [Advance d] =
           Inr ([Void], vc\<lparr>current_time := current_time vc + d\<rparr>)"
  using advance_in_range [OF assms] by simp

lemma run_is_virtual_result:
  "VirtualClock_run vc cs = Inr (rs, vc') \<Longrightarrow> i < length cs \<Longrightarrow> cs ! i = IsVirtual
     \<Longrightarrow> rs ! i = BoolVal True"
proof (induction cs arbitrary: vc rs i)
  case Nil
  then show ?case by simp
next
  case (Cons c cs)
  from Cons.prems(1) obtain r vc1 rs1 where
    step: "VirtualClock_call vc c = Inr (r, vc1)" and
    rest: "VirtualClock_run vc1 cs = Inr (rs1, vc')" and
    rs: "rs = r # rs1"
    by (auto split: sum.splits prod.splits)
  show ?case
  proof (cases i)
    case 0
    with Cons.prems(3) have "c = IsVirtual" by simp
    with step have "r = BoolVal True"
      by (simp add: VirtualClock_is_virtual_def)
    with 0 rs show ?thesis by simp
  next
    case (Suc j)
    with Cons.prems have "j < length cs" "cs ! j = IsVirtual" by simp_all
    with Cons.IH [OF rest] have "rs1 ! j = BoolVal True" by blast
    with Suc rs show ?thesis by simp
  qed
qed

lemma real_run_is_virtual_result:
  "RealClock_run rc cs = (rs, rc') \<Longrightarrow> i < length cs \<Longrightarrow> cs ! i = RealIsVirtual
     \<Longrightarrow> rs ! i = BoolVal False"
proof (induction cs arbitrary: rc rs i)
  case Nil
  then show ?case by simp
next
  case (Cons c cs)
  from Cons.prems(1) obtain r rc1 rs1 where
    step: "RealClock_call rc c = (r, rc1)" and
    rest: "RealClock_run rc1 cs = (rs1, rc')" and
    rs: "rs = r # rs1"
    by (auto split: prod.splits)
  show ?case
  proof (cases i)
    case 0
    with Cons.prems(3) have "c = RealIsVirtual" by simp
    with step have "r = BoolVal False"
      by (simp add: RealClock_is_virtual_def)
    with 0 rs show ?thesis by simp
  next
    case (Suc j)
    with Cons.prems have "j < length cs" "cs ! j = RealIsVirtual" by simp_all
    with Cons.IH [OF rest] have "rs1 ! j = BoolVal False" by blast
    with Suc rs show ?thesis by simp
  qed
qed

section \<open>Properties\<close>

text \<open>
  C5. For every Timestamp \<open>a\<close>, a VirtualClock constructed with initial value \<open>a\<close> returns
  exactly \<open>a\<close> from its first \<open>now()\<close> call, and a VirtualClock constructed with no
  argument returns \<open>0\<close> from its first \<open>now()\<close> call.
\<close>

theorem C5_ctor_then_now:
  "VirtualClock_now (VirtualClock_ctor a) = a \<and>
   VirtualClock_now VirtualClock_ctor_default = 0"
  by (simp add: VirtualClock_now_def VirtualClock_ctor_def VirtualClock_ctor_default_def)

text \<open>
  C8. For every VirtualClock state and every Timestamp \<open>a\<close>, \<open>set_time(a)\<close> makes the
  current time exactly \<open>a\<close>. Nothing relates \<open>a\<close> to the prior value: the statement
  holds for all \<open>vc\<close> and \<open>a\<close>, so for \<open>a\<close> below, equal to and above the previous time,
  and the call always returns.
\<close>

theorem C8_set_time_overwrites:
  "VirtualClock_now (VirtualClock_set_time vc a) = a \<and>
   current_time (VirtualClock_set_time vc a) = a \<and>
   VirtualClock_call vc (SetTime a) = Inr (Void, VirtualClock_set_time vc a)"
  by (simp add: VirtualClock_now_def VirtualClock_set_time_def)

text \<open>
  C3. \<open>now()\<close> returns exactly the value last written by the constructor, by \<open>advance\<close> or
  by \<open>set_time\<close>; any number \<open>n\<close> of consecutive \<open>now()\<close> calls with no mutation in
  between return the same Timestamp, and \<open>now()\<close> leaves the state of the clock as it was.
  The value written by \<open>advance(d)\<close> is the integer sum of the previous time and \<open>d\<close>.
  Read through the base class, the answer does not depend on the platform's clock: there
  is no drift and no implicit progress.
\<close>

theorem C3_now_reads_last_write:
  "VirtualClock_call vc Now = Inr (TimestampVal (current_time vc), vc) \<and>
   Clock_now (Virtual vc) steady_ns = current_time vc \<and>
   VirtualClock_run vc (replicate n Now) =
     Inr (replicate n (TimestampVal (current_time vc)), vc) \<and>
   VirtualClock_run (VirtualClock_ctor a) (replicate n Now) =
     Inr (replicate n (TimestampVal a), VirtualClock_ctor a) \<and>
   VirtualClock_run vc (SetTime a # replicate n Now) =
     Inr (Void # replicate n (TimestampVal a), VirtualClock_set_time vc a) \<and>
   (VirtualClock_advance vc d = Inr vc' \<longrightarrow>
      sint (current_time vc') = sint (current_time vc) + sint d \<and>
      VirtualClock_run vc (Advance d # replicate n Now) =
        Inr (Void # replicate n (TimestampVal (current_time vc')), vc'))"
proof -
  have rd: "VirtualClock_call vc Now = Inr (TimestampVal (current_time vc), vc)"
    by (simp add: VirtualClock_now_def)
  have ctor: "current_time (VirtualClock_ctor a) = a"
    by (simp add: VirtualClock_ctor_def)
  have st: "current_time (VirtualClock_set_time vc a) = a"
    by (simp add: VirtualClock_set_time_def)
  have adv: "sint (current_time vc') = sint (current_time vc) + sint d \<and>
      VirtualClock_run vc (Advance d # replicate n Now) =
        Inr (Void # replicate n (TimestampVal (current_time vc')), vc')"
    if ok: "VirtualClock_advance vc d = Inr vc'"
  proof -
    from ok have rng: "in_int64 (sint (current_time vc) + sint d)"
      using advance_Inr_iff by blast
    with ok have "vc' = vc\<lparr>current_time := current_time vc + d\<rparr>"
      by (simp add: advance_in_range)
    with rng have "sint (current_time vc') = sint (current_time vc) + sint d"
      by (simp add: sint_add_in_range)
    moreover from ok have "VirtualClock_run vc (Advance d # replicate n Now) =
        Inr (Void # replicate n (TimestampVal (current_time vc')), vc')"
      by (simp add: run_replicate_Now)
    ultimately show ?thesis by simp
  qed
  from rd ctor st adv show ?thesis
    by (simp add: run_replicate_Now VirtualClock_now_def)
qed

theorem C3_now_reads_last_write_witness:
  "VirtualClock_advance (VirtualClock_ctor 100) (- 50) = Inr (VirtualClock_ctor 50) \<and>
   sint (current_time (VirtualClock_ctor 50)) = sint (current_time (VirtualClock_ctor 100)) + sint (- 50 :: int64) \<and>
   VirtualClock_run (VirtualClock_ctor 100) (Advance (- 50) # replicate 3 Now) =
     Inr (Void # replicate 3 (TimestampVal 50), VirtualClock_ctor 50)"
proof -
  have h: "VirtualClock_advance (VirtualClock_ctor 100) (- 50) = Inr (VirtualClock_ctor 50)"
    by (simp add: VirtualClock_advance_def VirtualClock_ctor_def int64_add_def in_int64_def)
  have c: "current_time (VirtualClock_ctor 50) = 50"
    by (simp add: VirtualClock_ctor_def)
  from h c C3_now_reads_last_write
    [where vc = "VirtualClock_ctor 100" and d = "- 50" and vc' = "VirtualClock_ctor 50" and n = 3]
  show ?thesis by simp
qed

text \<open>
  C6. \<open>is_virtual()\<close> returns true on every VirtualClock and false on every RealClock, also
  when called through the base class, and the answer is the same over the whole lifetime
  of an object: whatever sequence of member calls is applied, every \<open>is_virtual()\<close> call
  in it returns that value and the object left behind still answers the same.
\<close>

theorem C6_is_virtual_constant:
  "VirtualClock_is_virtual vc = True \<and> RealClock_is_virtual rc = False \<and>
   Clock_is_virtual (Virtual vc) = True \<and> Clock_is_virtual (Real rc) = False \<and>
   (VirtualClock_run vc cs = Inr (rs, vc') \<longrightarrow>
      VirtualClock_is_virtual vc' = True \<and>
      (\<forall>i<length cs. cs ! i = IsVirtual \<longrightarrow> rs ! i = BoolVal True)) \<and>
   (RealClock_run rc rcs = (rrs, rc') \<longrightarrow>
      RealClock_is_virtual rc' = False \<and>
      (\<forall>i<length rcs. rcs ! i = RealIsVirtual \<longrightarrow> rrs ! i = BoolVal False))"
  using run_is_virtual_result [of vc cs rs vc'] real_run_is_virtual_result [of rc rcs rrs rc']
  by (simp add: VirtualClock_is_virtual_def RealClock_is_virtual_def)

theorem C6_is_virtual_constant_witness:
  "VirtualClock_run (VirtualClock_ctor 0) [IsVirtual, Advance 5, SetTime 3, IsVirtual] =
     Inr ([BoolVal True, Void, Void, BoolVal True], VirtualClock_ctor 3) \<and>
   VirtualClock_is_virtual (VirtualClock_ctor 3) = True \<and>
   [IsVirtual, Advance 5, SetTime 3, IsVirtual] ! 3 = IsVirtual \<and>
   [BoolVal True, Void, Void, BoolVal True] ! 3 = BoolVal True \<and>
   RealClock_run RealClock [RealIsVirtual, RealNow 7, RealIsVirtual] =
     ([BoolVal False, TimestampVal 7, BoolVal False], RealClock) \<and>
   RealClock_is_virtual RealClock = False \<and>
   [RealIsVirtual, RealNow 7, RealIsVirtual] ! 2 = RealIsVirtual \<and>
   [BoolVal False, TimestampVal 7, BoolVal False] ! 2 = BoolVal False"
proof -
  have v: "VirtualClock_run (VirtualClock_ctor 0) [IsVirtual, Advance 5, SetTime 3, IsVirtual] =
     Inr ([BoolVal True, Void, Void, BoolVal True], VirtualClock_ctor 3)"
    by (simp add: VirtualClock_advance_def VirtualClock_ctor_def int64_add_def in_int64_def
        VirtualClock_set_time_def VirtualClock_is_virtual_def)
  have r: "RealClock_run RealClock [RealIsVirtual, RealNow 7, RealIsVirtual] =
     ([BoolVal False, TimestampVal 7, BoolVal False], RealClock)"
    by (simp add: RealClock_is_virtual_def RealClock_now_def)
  from v r C6_is_virtual_constant
    [where vc = "VirtualClock_ctor 0" and cs = "[IsVirtual, Advance 5, SetTime 3, IsVirtual]"
       and rs = "[BoolVal True, Void, Void, BoolVal True]" and vc' = "VirtualClock_ctor 3"
       and rc = RealClock and rcs = "[RealIsVirtual, RealNow 7, RealIsVirtual]"
       and rrs = "[BoolVal False, TimestampVal 7, BoolVal False]" and rc' = RealClock]
  show ?thesis
    by (simp add: VirtualClock_is_virtual_def RealClock_is_virtual_def)
qed

text \<open>
  C1, as the code has it. For every pair of int64 values \<open>a\<close> and \<open>d\<close> whose integer sum
  is representable in an int64, \<open>set_time(a)\<close> followed by \<open>advance(d)\<close> leaves the
  current time equal to \<open>a + d\<close>, and the next \<open>now()\<close> returns \<open>a + d\<close>. The code
  declares no overflow policy: for the other pairs the signed addition of \<open>advance\<close>
  overflows and no time is defined.
\<close>

theorem C1_set_time_then_advance:
  assumes "in_int64 (sint a + sint d)"
  shows "\<exists>vc'. VirtualClock_advance (VirtualClock_set_time vc a) d = Inr vc' \<and>
           sint (VirtualClock_now vc') = sint a + sint d \<and>
           VirtualClock_now vc' = a + d \<and>
           VirtualClock_run vc [SetTime a, Advance d, Now] =
             Inr ([Void, Void, TimestampVal (a + d)], vc')"
proof -
  let ?s = "VirtualClock_set_time vc a"
  have cur: "current_time ?s = a"
    by (simp add: VirtualClock_set_time_def)
  with assms have adv: "VirtualClock_advance ?s d = Inr (?s\<lparr>current_time := a + d\<rparr>)"
    using advance_in_range [of ?s d] by simp
  moreover from assms have "sint (a + d) = sint a + sint d"
    by (rule sint_add_in_range)
  ultimately show ?thesis
    by (simp add: VirtualClock_now_def)
qed

theorem C1_set_time_then_advance_witness:
  "in_int64 (sint (5000000000 :: int64) + sint (- 1000000000 :: int64)) \<and>
   (\<exists>vc'. VirtualClock_advance (VirtualClock_set_time (VirtualClock_ctor 7) 5000000000)
             (- 1000000000) = Inr vc' \<and>
          sint (VirtualClock_now vc') = 4000000000 \<and>
          VirtualClock_now vc' = 4000000000)"
proof -
  have h: "in_int64 (sint (5000000000 :: int64) + sint (- 1000000000 :: int64))"
    by (simp add: in_int64_def)
  from h C1_set_time_then_advance [OF h, of "VirtualClock_ctor 7"]
  show ?thesis by auto
qed

text \<open>
  Stated for every pair, the property fails at \<open>a = INT64_MAX\<close>, \<open>d = 1\<close>: the addition
  overflows, so there is no current time afterwards, neither the saturated nor the
  wrapped one.
\<close>

theorem C1_every_pair_counterexample:
  "VirtualClock_advance (VirtualClock_set_time (VirtualClock_ctor 0) INT64_MAX) 1 =
     Inl SignedOverflow \<and>
   VirtualClock_run (VirtualClock_ctor 0) [SetTime INT64_MAX, Advance 1, Now] =
     Inl SignedOverflow"
  by (simp add: VirtualClock_advance_def VirtualClock_set_time_def VirtualClock_ctor_def
      int64_add_def in_int64_def INT64_MAX_def)

text \<open>
  C2, as the code has it. \<open>advance(d)\<close> adds with the built-in signed 64-bit addition and
  nothing else: when the integer sum of the current time \<open>t\<close> and \<open>d\<close> is representable
  the call is defined and stores exactly \<open>t + d\<close>; when it is not, the addition
  overflows, which C++ leaves undefined. The code implements no overflow policy, neither
  saturation nor wrap-around.
\<close>

theorem C2_advance_defined_in_range_only:
  "(in_int64 (sint (current_time vc) + sint d) \<longrightarrow>
      (\<exists>vc'. VirtualClock_advance vc d = Inr vc' \<and>
             sint (current_time vc') = sint (current_time vc) + sint d)) \<and>
   (\<not> in_int64 (sint (current_time vc) + sint d) \<longrightarrow>
      VirtualClock_advance vc d = Inl SignedOverflow)"
proof (cases "in_int64 (sint (current_time vc) + sint d)")
  case True
  then have "VirtualClock_advance vc d = Inr (vc\<lparr>current_time := current_time vc + d\<rparr>)"
    by (rule advance_in_range)
  moreover from True have "sint (current_time vc + d) = sint (current_time vc) + sint d"
    by (rule sint_add_in_range)
  ultimately show ?thesis using True by simp
next
  case False
  then show ?thesis by (simp add: advance_overflow)
qed

theorem C2_advance_defined_in_range_only_witness:
  "in_int64 (sint (current_time (VirtualClock_ctor 0)) + sint (1000000000 :: int64)) \<and>
   (\<exists>vc'. VirtualClock_advance (VirtualClock_ctor 0) 1000000000 = Inr vc' \<and>
          sint (current_time vc') = 1000000000) \<and>
   \<not> in_int64 (sint (current_time (VirtualClock_ctor INT64_MIN)) + sint (INT64_MIN :: int64)) \<and>
   VirtualClock_advance (VirtualClock_ctor INT64_MIN) INT64_MIN = Inl SignedOverflow"
proof -
  have h1: "in_int64 (sint (current_time (VirtualClock_ctor 0)) + sint (1000000000 :: int64))"
    by (simp add: in_int64_def VirtualClock_ctor_def)
  have h2: "\<not> in_int64 (sint (current_time (VirtualClock_ctor INT64_MIN)) + sint (INT64_MIN :: int64))"
    by (simp add: in_int64_def VirtualClock_ctor_def INT64_MIN_def)
  have c: "sint (current_time (VirtualClock_ctor 0)) + sint (1000000000 :: int64) = 1000000000"
    by (simp add: VirtualClock_ctor_def)
  from h1 h2 c
    C2_advance_defined_in_range_only [of "VirtualClock_ctor 0" 1000000000]
    C2_advance_defined_in_range_only [of "VirtualClock_ctor INT64_MIN" INT64_MIN]
  show ?thesis by auto
qed

text \<open>
  Freedom from undefined behaviour fails at \<open>t = INT64_MAX\<close>, \<open>d = 1\<close>: the result is
  neither the saturated time \<open>INT64_MAX\<close> nor the wrapped time \<open>INT64_MIN\<close>, the
  addition is undefined.
\<close>

theorem C2_no_policy_counterexample:
  "VirtualClock_advance (VirtualClock_ctor INT64_MAX) 1 = Inl SignedOverflow \<and>
   VirtualClock_advance (VirtualClock_ctor INT64_MAX) 1 \<noteq> Inr (VirtualClock_ctor INT64_MAX) \<and>
   VirtualClock_advance (VirtualClock_ctor INT64_MAX) 1 \<noteq> Inr (VirtualClock_ctor INT64_MIN)"
  by (simp add: VirtualClock_advance_def VirtualClock_ctor_def int64_add_def in_int64_def
      INT64_MAX_def)

text \<open>
  C7, as the code has it. \<open>advance\<close> accepts negative deltas and applies them exactly,
  without clamping (not at zero either): for every current time \<open>t\<close> and every negative
  \<open>d\<close> such that \<open>t + d\<close> is not below the least int64, the next \<open>now()\<close> returns
  \<open>t + d\<close>. In particular, after \<open>VirtualClock(100)\<close> and \<open>advance(-50)\<close>, \<open>now()\<close>
  returns 50.
\<close>

theorem C7_advance_negative_exact:
  "(sint d < 0 \<and> - 9223372036854775808 \<le> sint (current_time vc) + sint d \<longrightarrow>
      (\<exists>vc'. VirtualClock_advance vc d = Inr vc' \<and>
             sint (VirtualClock_now vc') = sint (VirtualClock_now vc) + sint d \<and>
             VirtualClock_run vc [Advance d, Now] =
               Inr ([Void, TimestampVal (VirtualClock_now vc + d)], vc'))) \<and>
   VirtualClock_run (VirtualClock_ctor 100) [Advance (- 50), Now] =
     Inr ([Void, TimestampVal 50], VirtualClock_ctor 50)"
proof -
  have gen: "\<exists>vc'. VirtualClock_advance vc d = Inr vc' \<and>
             sint (VirtualClock_now vc') = sint (VirtualClock_now vc) + sint d \<and>
             VirtualClock_run vc [Advance d, Now] =
               Inr ([Void, TimestampVal (VirtualClock_now vc + d)], vc')"
    if neg: "sint d < 0" and lo: "- 9223372036854775808 \<le> sint (current_time vc) + sint d"
  proof -
    have "sint (current_time vc) \<le> 9223372036854775807"
      using in_int64_sint [of "current_time vc"] by (simp add: in_int64_def)
    with neg lo have rng: "in_int64 (sint (current_time vc) + sint d)"
      by (simp add: in_int64_def)
    then have "VirtualClock_advance vc d = Inr (vc\<lparr>current_time := current_time vc + d\<rparr>)"
      by (rule advance_in_range)
    moreover from rng have "sint (current_time vc + d) = sint (current_time vc) + sint d"
      by (rule sint_add_in_range)
    ultimately show ?thesis
      by (simp add: VirtualClock_now_def)
  qed
  have scen: "VirtualClock_run (VirtualClock_ctor 100) [Advance (- 50), Now] =
     Inr ([Void, TimestampVal 50], VirtualClock_ctor 50)"
    by (simp add: VirtualClock_advance_def VirtualClock_ctor_def VirtualClock_now_def
        int64_add_def in_int64_def)
  from gen scen show ?thesis by blast
qed

theorem C7_advance_negative_exact_witness:
  "sint (- 50 :: int64) < 0 \<and>
   - 9223372036854775808 \<le> sint (current_time (VirtualClock_ctor 10)) + sint (- 50 :: int64) \<and>
   (\<exists>vc'. VirtualClock_advance (VirtualClock_ctor 10) (- 50) = Inr vc' \<and>
          sint (VirtualClock_now vc') = - 40)"
proof -
  have h: "sint (- 50 :: int64) < 0 \<and>
     - 9223372036854775808 \<le> sint (current_time (VirtualClock_ctor 10)) + sint (- 50 :: int64)"
    by (simp add: VirtualClock_ctor_def)
  have c: "sint (VirtualClock_now (VirtualClock_ctor 10)) + sint (- 50 :: int64) = - 40"
    by (simp add: VirtualClock_ctor_def VirtualClock_now_def)
  from h c C7_advance_negative_exact [of "- 50" "VirtualClock_ctor 10"]
  show ?thesis by auto
qed

text \<open>
  Stated for every current time and every negative delta, the property fails at
  \<open>t = INT64_MIN\<close>, \<open>d = -1\<close>: the addition overflows downwards and \<open>now()\<close> has
  nothing to return.
\<close>

theorem C7_every_negative_delta_counterexample:
  "sint (- 1 :: int64) < 0 \<and>
   VirtualClock_advance (VirtualClock_ctor INT64_MIN) (- 1) = Inl SignedOverflow \<and>
   VirtualClock_run (VirtualClock_ctor INT64_MIN) [Advance (- 1), Now] = Inl SignedOverflow"
  by (simp add: VirtualClock_advance_def VirtualClock_ctor_def int64_add_def in_int64_def
      INT64_MIN_def)

text \<open>
  C9, as the code has it. No member returns an error value or raises. \<open>now()\<close> and
  \<open>is_virtual()\<close> return on both variants, whatever the state and the platform's
  reading, and \<open>set_time\<close> returns for every int64 input. \<open>advance(d)\<close> returns exactly
  for the inputs whose integer sum with the current time is representable in an int64;
  for the others its signed addition overflows, which is undefined.
\<close>

theorem C9_members_defined:
  "VirtualClock_call vc Now = Inr (TimestampVal (VirtualClock_now vc), vc) \<and>
   VirtualClock_call vc IsVirtual = Inr (BoolVal True, vc) \<and>
   VirtualClock_call vc (SetTime a) = Inr (Void, VirtualClock_set_time vc a) \<and>
   RealClock_call rc (RealNow steady_ns) = (TimestampVal steady_ns, rc) \<and>
   RealClock_call rc RealIsVirtual = (BoolVal False, rc) \<and>
   (in_int64 (sint (current_time vc) + sint d) \<longrightarrow>
      (\<exists>vc'. VirtualClock_call vc (Advance d) = Inr (Void, vc'))) \<and>
   (\<not> in_int64 (sint (current_time vc) + sint d) \<longrightarrow>
      VirtualClock_call vc (Advance d) = Inl SignedOverflow)"
  by (simp add: VirtualClock_is_virtual_def RealClock_is_virtual_def RealClock_now_def
      advance_in_range advance_overflow)

theorem C9_members_defined_witness:
  "in_int64 (sint (current_time (VirtualClock_ctor 0)) + sint (1000000000 :: int64)) \<and>
   (\<exists>vc'. VirtualClock_call (VirtualClock_ctor 0) (Advance 1000000000) = Inr (Void, vc')) \<and>
   \<not> in_int64 (sint (current_time (VirtualClock_ctor (- 2))) + sint (INT64_MIN :: int64)) \<and>
   VirtualClock_call (VirtualClock_ctor (- 2)) (Advance INT64_MIN) = Inl SignedOverflow"
proof -
  have h1: "in_int64 (sint (current_time (VirtualClock_ctor 0)) + sint (1000000000 :: int64))"
    by (simp add: in_int64_def VirtualClock_ctor_def)
  have h2: "\<not> in_int64 (sint (current_time (VirtualClock_ctor (- 2))) + sint (INT64_MIN :: int64))"
    by (simp add: in_int64_def VirtualClock_ctor_def INT64_MIN_def)
  from h1 h2
    C9_members_defined [of "VirtualClock_ctor 0" _ _ _ 1000000000]
    C9_members_defined [of "VirtualClock_ctor (- 2)" _ _ _ INT64_MIN]
  show ?thesis by blast
qed

text \<open>
  That \<open>advance\<close> succeeds for every int64 input fails at \<open>t = INT64_MAX\<close>,
  \<open>d = INT64_MAX\<close>.
\<close>

theorem C9_advance_not_total_counterexample:
  "VirtualClock_call (VirtualClock_ctor INT64_MAX) (Advance INT64_MAX) = Inl SignedOverflow"
  by (simp add: VirtualClock_advance_def VirtualClock_ctor_def int64_add_def in_int64_def
      INT64_MAX_def)

text \<open>
  C10, as the code has it. Let \<open>t\<close> be the current time. Whenever \<open>t + d1\<close>,
  \<open>t + d1 + d2\<close> and \<open>d1 + d2\<close> are representable in an int64, \<open>advance(d1)\<close> followed
  by \<open>advance(d2)\<close> yields the same state as the single call \<open>advance(d1 + d2)\<close>, the
  time \<open>t + d1 + d2\<close>. Whenever \<open>t + d1\<close>, \<open>t + d2\<close> and \<open>t + d1 + d2\<close> are
  representable, the two calls commute.
\<close>

theorem C10_advance_merge_and_commute:
  "(in_int64 (sint (current_time vc) + sint d1) \<and>
    in_int64 (sint (current_time vc) + sint d1 + sint d2) \<and>
    in_int64 (sint d1 + sint d2) \<longrightarrow>
      (\<exists>vc'. VirtualClock_run vc [Advance d1, Advance d2] = Inr ([Void, Void], vc') \<and>
             VirtualClock_run vc [Advance (d1 + d2)] = Inr ([Void], vc') \<and>
             sint (current_time vc') = sint (current_time vc) + sint d1 + sint d2)) \<and>
   (in_int64 (sint (current_time vc) + sint d1) \<and>
    in_int64 (sint (current_time vc) + sint d2) \<and>
    in_int64 (sint (current_time vc) + sint d1 + sint d2) \<longrightarrow>
      (\<exists>vc'. VirtualClock_run vc [Advance d1, Advance d2] = Inr ([Void, Void], vc') \<and>
             VirtualClock_run vc [Advance d2, Advance d1] = Inr ([Void, Void], vc')))"
proof -
  let ?t = "current_time vc"
  let ?vc' = "vc\<lparr>current_time := ?t + d1 + d2\<rparr>"
  have merge: "VirtualClock_run vc [Advance d1, Advance d2] = Inr ([Void, Void], ?vc') \<and>
      VirtualClock_run vc [Advance (d1 + d2)] = Inr ([Void], ?vc') \<and>
      sint (current_time ?vc') = sint ?t + sint d1 + sint d2"
    if a: "in_int64 (sint ?t + sint d1)" and b: "in_int64 (sint ?t + sint d1 + sint d2)"
      and c: "in_int64 (sint d1 + sint d2)"
  proof -
    from c have d12: "sint (d1 + d2) = sint d1 + sint d2"
      by (rule sint_add_in_range)
    with b have "in_int64 (sint ?t + sint (d1 + d2))"
      by (simp add: add.assoc)
    then have once: "VirtualClock_run vc [Advance (d1 + d2)] = Inr ([Void], ?vc')"
      using run_advance_once [of vc "d1 + d2"] by (simp add: add.assoc)
    from a have "sint (?t + d1) = sint ?t + sint d1"
      by (rule sint_add_in_range)
    with b have "sint (?t + d1 + d2) = sint ?t + sint d1 + sint d2"
      using sint_add_in_range [of "?t + d1" d2] by simp
    with once run_advance_twice [OF a b] show ?thesis by simp
  qed
  have comm: "VirtualClock_run vc [Advance d1, Advance d2] = Inr ([Void, Void], ?vc') \<and>
      VirtualClock_run vc [Advance d2, Advance d1] = Inr ([Void, Void], ?vc')"
    if a: "in_int64 (sint ?t + sint d1)" and a': "in_int64 (sint ?t + sint d2)"
      and b: "in_int64 (sint ?t + sint d1 + sint d2)"
  proof -
    from b have b': "in_int64 (sint ?t + sint d2 + sint d1)"
      by (simp add: add.commute add.left_commute)
    have "?t + d2 + d1 = ?t + d1 + d2"
      by (simp add: add.commute add.left_commute)
    with run_advance_twice [OF a b] run_advance_twice [OF a' b'] show ?thesis by simp
  qed
  from merge comm show ?thesis by blast
qed

theorem C10_advance_merge_and_commute_witness:
  "in_int64 (sint (current_time (VirtualClock_ctor 100)) + sint (- 50 :: int64)) \<and>
   in_int64 (sint (current_time (VirtualClock_ctor 100)) + sint (30 :: int64)) \<and>
   in_int64 (sint (current_time (VirtualClock_ctor 100)) + sint (- 50 :: int64) + sint (30 :: int64)) \<and>
   in_int64 (sint (- 50 :: int64) + sint (30 :: int64)) \<and>
   (\<exists>vc'. VirtualClock_run (VirtualClock_ctor 100) [Advance (- 50), Advance 30] =
            Inr ([Void, Void], vc') \<and>
          VirtualClock_run (VirtualClock_ctor 100) [Advance (- 50 + 30)] = Inr ([Void], vc') \<and>
          sint (current_time vc') = 80) \<and>
   (\<exists>vc'. VirtualClock_run (VirtualClock_ctor 100) [Advance (- 50), Advance 30] =
            Inr ([Void, Void], vc') \<and>
          VirtualClock_run (VirtualClock_ctor 100) [Advance 30, Advance (- 50)] =
            Inr ([Void, Void], vc'))"
proof -
  have h: "in_int64 (sint (current_time (VirtualClock_ctor 100)) + sint (- 50 :: int64))"
    "in_int64 (sint (current_time (VirtualClock_ctor 100)) + sint (30 :: int64))"
    "in_int64 (sint (current_time (VirtualClock_ctor 100)) + sint (- 50 :: int64) + sint (30 :: int64))"
    "in_int64 (sint (- 50 :: int64) + sint (30 :: int64))"
    by (simp_all add: in_int64_def VirtualClock_ctor_def)
  have c: "sint (current_time (VirtualClock_ctor 100)) + sint (- 50 :: int64) + sint (30 :: int64) = 80"
    by (simp add: VirtualClock_ctor_def)
  from h c C10_advance_merge_and_commute [of "VirtualClock_ctor 100" "- 50" 30]
  show ?thesis by auto
qed

text \<open>
  Stated for every state and all deltas, the property fails at \<open>t = INT64_MAX\<close>,
  \<open>d1 = 1\<close>, \<open>d2 = -1\<close>: the first \<open>advance\<close> overflows, while the single call with the
  sum and the two calls in the other order are defined.
\<close>

theorem C10_overflowing_first_step_counterexample:
  "VirtualClock_run (VirtualClock_ctor INT64_MAX) [Advance 1, Advance (- 1)] =
     Inl SignedOverflow \<and>
   VirtualClock_run (VirtualClock_ctor INT64_MAX) [Advance (1 + (- 1))] =
     Inr ([Void], VirtualClock_ctor INT64_MAX) \<and>
   VirtualClock_run (VirtualClock_ctor INT64_MAX) [Advance (- 1), Advance 1] =
     Inr ([Void, Void], VirtualClock_ctor INT64_MAX)"
  by (simp add: VirtualClock_advance_def VirtualClock_ctor_def int64_add_def in_int64_def
      INT64_MAX_def)

end
